theory Spec2Isabelle
  imports Main "HOL-Library.Word" "HOL-Library.AList"
begin

unbundle bit_operations_syntax

section \<open>Values of the Python program\<close>

text \<open>
  The server of \<^verbatim>\<open>start.py\<close> is the class \<^verbatim>\<open>RemoteConnectionHost\<close>. Its
  methods are embedded below as HOL functions over an explicit server state; whatever
  the operating system or a library answers (spawned processes, the random source,
  the clock, the socket) is an explicit argument of the function that asks for it.
  A worker thread is followed on its own: the requests of one connection are handled
  one after the other, and what other threads do in between is not modelled.

  A Python \<^verbatim>\<open>str\<close> is a sequence of Unicode code points, a \<^verbatim>\<open>bytes\<close>
  object a sequence of octets. A \<^verbatim>\<open>str\<close> may hold lone surrogates
  (U+D800 to U+DFFF), which \<^verbatim>\<open>json.loads\<close> produces from an escape such as
  \<^verbatim>\<open>"\ud800"\<close> and which have no UTF-8 encoding, so the two types are kept apart.
\<close>

type_synonym byte = "8 word"
type_synonym pystr = "nat list"

definition ustr :: "string \<Rightarrow> pystr" where
  \<comment> \<open>the \<^verbatim>\<open>str\<close> of an ASCII literal of the source\<close>
  "ustr s = map of_char s"

text \<open>
  What \<^verbatim>\<open>json.loads\<close> returns: \<^verbatim>\<open>None\<close>, a \<^verbatim>\<open>bool\<close>, an
  \<^verbatim>\<open>int\<close>, a \<^verbatim>\<open>float\<close>, a \<^verbatim>\<open>str\<close>, a \<^verbatim>\<open>list\<close> or a
  \<^verbatim>\<open>dict\<close> with \<^verbatim>\<open>str\<close> keys, given by the list of its items (a dict
  has each key once). A float is \<open>m * 2 ^ e\<close>, an infinity (the flag is its sign) or
  a NaN; the handler only ever tests one for being zero.
\<close>

datatype pyfloat = FNum int int | FInf bool | FNaN

datatype json =
    JNull
  | JBool bool
  | JInt int
  | JFloat pyfloat
  | JStr pystr
  | JList "json list"
  | JDict "(pystr \<times> json) list"

text \<open>The exceptions that the modelled statements can raise.\<close>

datatype exn =
    AttributeError
  | TypeError
  | UnicodeEncodeError
  | UnicodeDecodeError
  | RecursionError
  | ConnectionResetError
  | OSError

fun truthy :: "json \<Rightarrow> bool" where
  \<comment> \<open>Python's truth value, as \<^verbatim>\<open>if not command\<close> tests it\<close>
  "truthy JNull = False"
| "truthy (JBool b) = b"
| "truthy (JInt i) = (i \<noteq> 0)"
| "truthy (JFloat (FNum m e)) = (m \<noteq> 0)"
| "truthy (JFloat (FInf sg)) = True"
| "truthy (JFloat FNaN) = True"
| "truthy (JStr s) = (s \<noteq> [])"
| "truthy (JList xs) = (xs \<noteq> [])"
| "truthy (JDict kvs) = (kvs \<noteq> [])"

definition dict_get :: "(pystr \<times> json) list \<Rightarrow> string \<Rightarrow> json" where
  \<comment> \<open>\<^verbatim>\<open>message.get(key)\<close> on a dict: \<^verbatim>\<open>None\<close> when the key is absent\<close>
  "dict_get kvs key = (case map_of kvs (ustr key) of None \<Rightarrow> JNull | Some v \<Rightarrow> v)"

definition dict_contains :: "(pystr \<rightharpoonup> 'v) \<Rightarrow> json \<Rightarrow> exn + bool" where
  \<comment> \<open>\<^verbatim>\<open>x in d\<close> for a dict \<open>d\<close> whose keys are all \<^verbatim>\<open>str\<close>: a list or a dict
      is unhashable and raises \<^verbatim>\<open>TypeError\<close>; \<^verbatim>\<open>None\<close>, a bool and a number
      hash, and equal no \<^verbatim>\<open>str\<close> key\<close>
  "dict_contains d x =
     (case x of
        JStr k \<Rightarrow> Inr (d k \<noteq> None)
      | JList xs \<Rightarrow> Inl TypeError
      | JDict kvs \<Rightarrow> Inl TypeError
      | _ \<Rightarrow> Inr False)"

function dec_nat :: "nat \<Rightarrow> pystr" where
  \<comment> \<open>the decimal digits of a natural number\<close>
  "dec_nat n = (if n < 10 then [48 + n] else dec_nat (n div 10) @ [48 + n mod 10])"
  by pat_completeness auto
termination
  by (relation "measure id") auto

declare dec_nat.simps [simp del]

definition str_int :: "int \<Rightarrow> pystr" where
  \<comment> \<open>\<^verbatim>\<open>str(i)\<close> for an \<^verbatim>\<open>int\<close>\<close>
  "str_int i = (if i < 0 then 45 # dec_nat (nat (- i)) else dec_nat (nat i))"

section \<open>Library functions the server calls\<close>

subsection \<open>\<^verbatim>\<open>str.encode()\<close>: UTF-8\<close>

definition is_surrogate :: "nat \<Rightarrow> bool" where
  "is_surrogate c = (0xD800 \<le> c \<and> c \<le> 0xDFFF)"

definition utf8_char :: "nat \<Rightarrow> byte list" where
  "utf8_char c =
     (if c < 0x80 then [of_nat c]
      else if c < 0x800 then [of_nat (0xC0 + c div 64), of_nat (0x80 + c mod 64)]
      else if c < 0x10000 then
        [of_nat (0xE0 + c div 4096), of_nat (0x80 + c div 64 mod 64), of_nat (0x80 + c mod 64)]
      else
        [of_nat (0xF0 + c div 262144), of_nat (0x80 + c div 4096 mod 64),
         of_nat (0x80 + c div 64 mod 64), of_nat (0x80 + c mod 64)])"

definition str_encode :: "pystr \<Rightarrow> exn + byte list" where
  \<comment> \<open>\<^verbatim>\<open>s.encode()\<close>: strict UTF-8, which refuses a surrogate code point\<close>
  "str_encode s =
     (if list_ex is_surrogate s then Inl UnicodeEncodeError
      else Inr (concat (map utf8_char s)))"

subsection \<open>\<^verbatim>\<open>hashlib.sha256(b).hexdigest()\<close>\<close>

text \<open>
  SHA-256 as FIPS 180-4 defines it, on 32-bit words: the message is padded to a
  multiple of 64 octets, and each block of 16 words is expanded to 64 words and
  compressed into the 8 words of the hash. The server only compares digests, and the
  properties below hold for any digest function in its place.
\<close>

definition rotr :: "nat \<Rightarrow> 32 word \<Rightarrow> 32 word" where
  "rotr n x = drop_bit n x OR push_bit (32 - n) x"

fun floor_root :: "nat \<Rightarrow> nat \<Rightarrow> nat \<Rightarrow> nat \<Rightarrow> nat" where
  \<comment> \<open>\<open>floor_root k n b r\<close> settles the \<open>b\<close> low bits of the largest \<open>x\<close> with
      \<open>x ^ k \<le> n\<close>, given its bits above them in \<open>r\<close>\<close>
  "floor_root k n 0 r = r"
| "floor_root k n (Suc b) r =
     floor_root k n b (if (r + 2 ^ b) ^ k \<le> n then r + 2 ^ b else r)"

definition primes_upto :: "nat \<Rightarrow> nat list" where
  "primes_upto n = filter (\<lambda>p. list_all (\<lambda>d. p mod d \<noteq> 0) [2..<p]) [2..<Suc n]"

definition sha_k :: "32 word list" where
  \<comment> \<open>the first 32 bits of the fractional parts of the cube roots of the first 64
      primes\<close>
  "sha_k = map (\<lambda>p. of_nat (floor_root 3 (p * 2 ^ 96) 36 0)) (primes_upto 311)"

definition sha_iv :: "32 word list" where
  \<comment> \<open>the first 32 bits of the fractional parts of the square roots of the first 8
      primes\<close>
  "sha_iv = map (\<lambda>p. of_nat (floor_root 2 (p * 2 ^ 64) 36 0)) (primes_upto 19)"

definition be_bytes :: "nat \<Rightarrow> nat \<Rightarrow> byte list" where
  \<comment> \<open>the \<open>k\<close> low octets of \<open>n\<close>, most significant first\<close>
  "be_bytes k n = map (\<lambda>i. of_nat (n div 256 ^ (k - 1 - i))) [0..<k]"

definition sha_pad :: "byte list \<Rightarrow> byte list" where
  "sha_pad m = m @ [0x80] @ replicate ((119 - length m mod 64) mod 64) 0
                 @ be_bytes 8 (8 * length m)"

definition be_word :: "byte list \<Rightarrow> 32 word" where
  "be_word bs = foldl (\<lambda>w b. push_bit 8 w OR ucast b) 0 bs"

definition sha_blocks :: "byte list \<Rightarrow> 32 word list list" where
  "sha_blocks m =
     map (\<lambda>i. map (\<lambda>j. be_word (take 4 (drop (64 * i + 4 * j) m))) [0..<16])
         [0..<length m div 64]"

definition ssig0 :: "32 word \<Rightarrow> 32 word" where
  "ssig0 x = rotr 7 x XOR rotr 18 x XOR drop_bit 3 x"

definition ssig1 :: "32 word \<Rightarrow> 32 word" where
  "ssig1 x = rotr 17 x XOR rotr 19 x XOR drop_bit 10 x"

definition bsig0 :: "32 word \<Rightarrow> 32 word" where
  "bsig0 x = rotr 2 x XOR rotr 13 x XOR rotr 22 x"

definition bsig1 :: "32 word \<Rightarrow> 32 word" where
  "bsig1 x = rotr 6 x XOR rotr 11 x XOR rotr 25 x"

definition sha_ch :: "32 word \<Rightarrow> 32 word \<Rightarrow> 32 word \<Rightarrow> 32 word" where
  "sha_ch x y z = (x AND y) XOR (NOT x AND z)"

definition sha_maj :: "32 word \<Rightarrow> 32 word \<Rightarrow> 32 word \<Rightarrow> 32 word" where
  "sha_maj x y z = (x AND y) XOR (x AND z) XOR (y AND z)"

definition sha_schedule :: "32 word list \<Rightarrow> 32 word list" where
  "sha_schedule blk =
     foldl (\<lambda>w t. w @ [ssig1 (w ! (t - 2)) + w ! (t - 7) + ssig0 (w ! (t - 15)) + w ! (t - 16)])
           blk [16..<64]"

definition sha_round :: "32 word list \<Rightarrow> 32 word \<times> 32 word \<Rightarrow> 32 word list" where
  "sha_round v kw =
     (case v of
        [a, b, c, d, e, f, g, h] \<Rightarrow>
          (let t1 = h + bsig1 e + sha_ch e f g + fst kw + snd kw;
               t2 = bsig0 a + sha_maj a b c
           in [t1 + t2, a, b, c, d + t1, e, f, g])
      | _ \<Rightarrow> v)"

definition sha_compress :: "32 word list \<Rightarrow> 32 word list \<Rightarrow> 32 word list" where
  "sha_compress hs blk = map2 (+) hs (foldl sha_round hs (zip sha_k (sha_schedule blk)))"

definition sha256_digest :: "byte list \<Rightarrow> byte list" where
  "sha256_digest m =
     concat (map (\<lambda>w. map (\<lambda>i. ucast (drop_bit (8 * (3 - i)) w)) [0..<4])
                 (foldl sha_compress sha_iv (sha_blocks (sha_pad m))))"

definition hex_digit :: "nat \<Rightarrow> nat" where
  \<comment> \<open>the code point of a lower-case hexadecimal digit\<close>
  "hex_digit d = (if d < 10 then 48 + d else 87 + d)"

definition hex_of_byte :: "byte \<Rightarrow> pystr" where
  "hex_of_byte b = [hex_digit (unat b div 16), hex_digit (unat b mod 16)]"

definition bytes_hex :: "byte list \<Rightarrow> pystr" where
  \<comment> \<open>\<^verbatim>\<open>bytes.hex()\<close>\<close>
  "bytes_hex bs = concat (map hex_of_byte bs)"

definition sha256_hexdigest :: "byte list \<Rightarrow> pystr" where
  "sha256_hexdigest m = bytes_hex (sha256_digest m)"

subsection \<open>\<^verbatim>\<open>secrets.token_hex(32)\<close>\<close>

text \<open>
  \<^verbatim>\<open>token_hex(32)\<close> draws 32 octets from the operating system's random source and
  returns their 64 hexadecimal digits. The 32 octets are a 256-bit word here, most
  significant octet first, so that every value of the type is a possible draw.
\<close>

definition token_hex :: "256 word \<Rightarrow> pystr" where
  "token_hex w = bytes_hex (map (\<lambda>i. ucast (drop_bit (8 * (31 - i)) w)) [0..<32])"

subsection \<open>\<^verbatim>\<open>subprocess.Popen\<close> and \<^verbatim>\<open>communicate\<close>\<close>

text \<open>
  What one use of the process facility by \<^verbatim>\<open>_execute_command\<close> can do:
  \<^item> \<open>PopenRaises msg\<close>: \<^verbatim>\<open>subprocess.Popen(...)\<close> raises an exception \<open>e\<close> with
    \<^verbatim>\<open>str(e) = msg\<close> (an embedded null byte, a command that is no string, no shell);
  \<^item> \<open>Exited out err rc\<close>: \<^verbatim>\<open>communicate(timeout=30)\<close> returns \<open>(out, err)\<close>
    and the return code is \<open>rc\<close>;
  \<^item> \<open>CommunicateRaises msg\<close>: \<^verbatim>\<open>communicate(timeout=30)\<close> raises an exception
    other than \<^verbatim>\<open>TimeoutExpired\<close> (output that does not decode as text);
  \<^item> \<open>TimedOut out err d\<close>: \<^verbatim>\<open>communicate(timeout=30)\<close> raises
    \<^verbatim>\<open>TimeoutExpired\<close> when the command has written \<open>out\<close> to its stdout and
    \<open>err\<close> to its stderr. Then \<^verbatim>\<open>process.kill()\<close> kills the shell, not the
    processes that the shell has started, and the second \<^verbatim>\<open>communicate()\<close>, which
    has no timeout, reads both pipes until they are closed, keeping what was read
    before. What that does is \<open>d\<close>:
    \<^item> \<open>Drained out' err'\<close>: the pipes are closed after \<open>out'\<close> and \<open>err'\<close> more have
      been written, by processes that outlive the shell (both are empty when none
      does), and \<^verbatim>\<open>communicate()\<close> returns \<open>(out @ out', err @ err')\<close>;
    \<^item> \<open>DrainRaises msg\<close>: \<^verbatim>\<open>kill()\<close> or the second \<^verbatim>\<open>communicate()\<close> raises;
    \<^item> \<open>DrainBlocks\<close>: a process that outlives the shell keeps a pipe open for
      ever, and the second \<^verbatim>\<open>communicate()\<close> never returns.
  The exceptions are instances of \<^verbatim>\<open>Exception\<close>.
\<close>

datatype drain =
    Drained pystr pystr
  | DrainRaises pystr
  | DrainBlocks

datatype proc_run =
    PopenRaises pystr
  | Exited pystr pystr int
  | CommunicateRaises pystr
  | TimedOut pystr pystr drain

section \<open>The server state\<close>

text \<open>
  One entry of the live-connection registry \<^verbatim>\<open>self.clients\<close>. A socket object is
  a number that identifies it.
\<close>

record client_info =
  socket :: nat
  address :: "pystr \<times> int"
  connected_at :: pyfloat
  authenticated :: bool

text \<open>
  The attributes that \<^verbatim>\<open>__init__\<close> creates. \<^verbatim>\<open>clients\<close> is a dict that
  \<^verbatim>\<open>stop\<close> iterates over, an association list in insertion order;
  \<^verbatim>\<open>auth_tokens\<close> (the Session Table) and \<^verbatim>\<open>credentials\<close> (the Credential
  Store) are only looked up and assigned to, and are maps. Two further fields record
  effects outside the object: the sockets \<^verbatim>\<open>close()\<close> was called on, and the
  commands that were handed to \<^verbatim>\<open>subprocess.Popen\<close>, each in order.
\<close>

record server =
  host :: pystr
  port :: int
  server_socket :: "nat option"
  running :: bool
  clients :: "(pystr \<times> client_info) list"
  auth_tokens :: "pystr \<rightharpoonup> pystr"
  credentials :: "pystr \<rightharpoonup> pystr"
  closed_sockets :: "nat list"
  popen_calls :: "json list"

text \<open>
  What the outside world answers while one request is handled: the random octets that
  \<^verbatim>\<open>secrets.token_hex(32)\<close> draws, what a process spawned now would do,
  \<^verbatim>\<open>socket.gethostname()\<close>, \<^verbatim>\<open>sys.platform\<close>, \<^verbatim>\<open>sys.version\<close>,
  \<^verbatim>\<open>datetime.now().isoformat()\<close>, and the text that the f-string of the last
  branch renders for \<^verbatim>\<open>msg_type\<close>.
\<close>

record env =
  token_bytes :: "256 word"
  process :: proc_run
  gethostname :: pystr
  sys_platform :: pystr
  sys_version :: pystr
  now_isoformat :: pystr
  rendered_type :: pystr

definition hash_password :: "json \<Rightarrow> exn + pystr" where
  \<comment> \<open>\<^verbatim>\<open>hashlib.sha256(password.encode()).hexdigest()\<close>: only a \<^verbatim>\<open>str\<close> has
      the attribute \<^verbatim>\<open>encode\<close>\<close>
  "hash_password password =
     (case password of
        JStr p \<Rightarrow>
          (case str_encode p of
             Inl e \<Rightarrow> Inl e
           | Inr b \<Rightarrow> Inr (sha256_hexdigest b))
      | _ \<Rightarrow> Inl AttributeError)"

definition init_server :: "pystr \<Rightarrow> int \<Rightarrow> server" where
  \<comment> \<open>\<^verbatim>\<open>__init__\<close>; the two default passwords are ASCII literals\<close>
  "init_server h p =
     \<lparr> host = h, port = p, server_socket = None, running = False, clients = [],
       auth_tokens = Map.empty,
       credentials =
         [ustr ''admin'' \<mapsto> sha256_hexdigest (concat (map utf8_char (ustr ''admin123''))),
          ustr ''user'' \<mapsto> sha256_hexdigest (concat (map utf8_char (ustr ''user123'')))],
       closed_sockets = [], popen_calls = [] \<rparr>"

definition generate_token :: "env \<Rightarrow> pystr" where
  "generate_token env = token_hex (token_bytes env)"

definition authenticate :: "env \<Rightarrow> server \<Rightarrow> json \<Rightarrow> json \<Rightarrow> server \<times> (exn + pystr option)" where
  \<comment> \<open>returns the token, or \<^verbatim>\<open>None\<close>; the password is hashed before the user name
      is looked at\<close>
  "authenticate env s username password =
     (case hash_password password of
        Inl e \<Rightarrow> (s, Inl e)
      | Inr hashed_password \<Rightarrow>
          (case dict_contains (credentials s) username of
             Inl e \<Rightarrow> (s, Inl e)
           | Inr known \<Rightarrow>
               (case username of
                  JStr u \<Rightarrow>
                    if known \<and> credentials s u = Some hashed_password then
                      let token = generate_token env
                      in (s\<lparr>auth_tokens := (auth_tokens s)(token \<mapsto> u)\<rparr>, Inr (Some token))
                    else (s, Inr None)
                | _ \<Rightarrow> (s, Inr None))))"

definition validate_token :: "server \<Rightarrow> json \<Rightarrow> exn + bool" where
  \<comment> \<open>\<^verbatim>\<open>token in self.auth_tokens\<close>\<close>
  "validate_token s token = dict_contains (auth_tokens s) token"

section \<open>The Command Executor: \<^verbatim>\<open>_execute_command\<close>\<close>

definition execute_command :: "env \<Rightarrow> server \<Rightarrow> json \<Rightarrow> server \<times> (pystr \<times> pystr \<times> int) option" where
  \<comment> \<open>the state and \<^verbatim>\<open>(stdout, stderr, returncode)\<close>, or \<open>None\<close> when the method
      never returns; the outer \<^verbatim>\<open>except Exception\<close> catches whatever the process
      facility raises\<close>
  "execute_command env s command =
     (s\<lparr>popen_calls := popen_calls s @ [command]\<rparr>,
      (case process env of
         PopenRaises msg \<Rightarrow> Some ([], ustr ''Error executing command: '' @ msg, 1)
       | Exited out err rc \<Rightarrow> Some (out, err, rc)
       | CommunicateRaises msg \<Rightarrow> Some ([], ustr ''Error executing command: '' @ msg, 1)
       | TimedOut out err d \<Rightarrow>
           (case d of
              Drained out' err' \<Rightarrow> Some (out @ out', ustr ''Command timed out'', 1)
            | DrainRaises msg \<Rightarrow> Some ([], ustr ''Error executing command: '' @ msg, 1)
            | DrainBlocks \<Rightarrow> None)))"

definition res_stdout :: "server \<times> (pystr \<times> pystr \<times> int) option \<Rightarrow> pystr option" where
  "res_stdout r = map_option fst (snd r)"

definition res_stderr :: "server \<times> (pystr \<times> pystr \<times> int) option \<Rightarrow> pystr option" where
  "res_stderr r = map_option (\<lambda>t. fst (snd t)) (snd r)"

definition res_returncode :: "server \<times> (pystr \<times> pystr \<times> int) option \<Rightarrow> int option" where
  "res_returncode r = map_option (\<lambda>t. snd (snd t)) (snd r)"

section \<open>The Protocol Handler: \<^verbatim>\<open>_handle_client_message\<close>\<close>

definition error_response :: "pystr \<Rightarrow> json" where
  "error_response m =
     JDict [(ustr ''type'', JStr (ustr ''error'')), (ustr ''message'', JStr m)]"

definition auth_success :: "pystr \<Rightarrow> json" where
  "auth_success token =
     JDict [(ustr ''type'', JStr (ustr ''auth_response'')),
            (ustr ''success'', JBool True),
            (ustr ''token'', JStr token),
            (ustr ''message'', JStr (ustr ''Authentication successful''))]"

definition auth_failure :: json where
  "auth_failure =
     JDict [(ustr ''type'', JStr (ustr ''auth_response'')),
            (ustr ''success'', JBool False),
            (ustr ''message'', JStr (ustr ''Authentication failed''))]"

definition command_response :: "pystr \<times> pystr \<times> int \<Rightarrow> json" where
  "command_response r =
     (case r of (out, err, returncode) \<Rightarrow>
        JDict [(ustr ''type'', JStr (ustr ''command_response'')),
               (ustr ''stdout'', JStr out),
               (ustr ''stderr'', JStr err),
               (ustr ''returncode'', JInt returncode)])"

definition system_info_response :: "env \<Rightarrow> json" where
  "system_info_response env =
     JDict [(ustr ''type'', JStr (ustr ''system_info_response'')),
            (ustr ''hostname'', JStr (gethostname env)),
            (ustr ''platform'', JStr (sys_platform env)),
            (ustr ''python_version'', JStr (sys_version env)),
            (ustr ''current_time'', JStr (now_isoformat env))]"

text \<open>
  The handler returns the new state and what becomes of the call: \<open>Some (Inr r)\<close>
  when it returns the response dict \<open>r\<close>, \<open>Some (Inl e)\<close> when the exception \<open>e\<close>
  leaves it, \<open>None\<close> when it never returns. \<^verbatim>\<open>message.get\<close> needs a dict: on any
  other JSON value the first statement raises \<^verbatim>\<open>AttributeError\<close>.
\<close>

definition handle_client_message :: "env \<Rightarrow> server \<Rightarrow> json \<Rightarrow> server \<times> (exn + json) option" where
  "handle_client_message env s message =
     (case message of
        JDict kvs \<Rightarrow>
          (let msg_type = dict_get kvs ''type'' in
           if msg_type = JStr (ustr ''auth'') then
             (case authenticate env s (dict_get kvs ''username'') (dict_get kvs ''password'') of
                (s', Inl e) \<Rightarrow> (s', Some (Inl e))
              | (s', Inr None) \<Rightarrow> (s', Some (Inr auth_failure))
              | (s', Inr (Some token)) \<Rightarrow>
                  if token \<noteq> [] then (s', Some (Inr (auth_success token)))
                  else (s', Some (Inr auth_failure)))
           else if msg_type = JStr (ustr ''command'') then
             (case validate_token s (dict_get kvs ''token'') of
                Inl e \<Rightarrow> (s, Some (Inl e))
              | Inr valid \<Rightarrow>
                  if \<not> valid then
                    (s, Some (Inr (error_response (ustr ''Invalid or expired token''))))
                  else
                    let command = dict_get kvs ''command'' in
                    if \<not> truthy command then
                      (s, Some (Inr (error_response (ustr ''No command provided''))))
                    else
                      (case execute_command env s command of
                         (s', None) \<Rightarrow> (s', None)
                       | (s', Some result) \<Rightarrow> (s', Some (Inr (command_response result)))))
           else if msg_type = JStr (ustr ''system_info'') then
             (case validate_token s (dict_get kvs ''token'') of
                Inl e \<Rightarrow> (s, Some (Inl e))
              | Inr valid \<Rightarrow>
                  if \<not> valid then
                    (s, Some (Inr (error_response (ustr ''Invalid or expired token''))))
                  else (s, Some (Inr (system_info_response env))))
           else
             (s, Some (Inr (error_response (ustr ''Unknown message type: '' @ rendered_type env)))))
      | _ \<Rightarrow> (s, Some (Inl AttributeError)))"

section \<open>The per-connection worker: \<^verbatim>\<open>_handle_client\<close>\<close>

text \<open>
  What one \<^verbatim>\<open>client_socket.recv(4096)\<close> gives the loop, by the first statement
  that stops on it:
  \<^item> \<open>RecvRaises e\<close>: \<^verbatim>\<open>recv\<close> raises \<open>e\<close>;
  \<^item> \<open>RecvEmpty\<close>: it returns \<^verbatim>\<open>b''\<close>;
  \<^item> \<open>RecvUndecodable\<close>: it returns octets that are not UTF-8 (\<^verbatim>\<open>b'\xff\n'\<close>), so
    \<^verbatim>\<open>data.decode()\<close> raises \<^verbatim>\<open>UnicodeDecodeError\<close>, a \<^verbatim>\<open>ValueError\<close>
    that is no \<^verbatim>\<open>json.JSONDecodeError\<close>;
  \<^item> \<open>RecvNotJson\<close>: the octets decode and \<^verbatim>\<open>json.loads\<close> raises
    \<^verbatim>\<open>json.JSONDecodeError\<close>;
  \<^item> \<open>RecvLoadsRaises e\<close>: \<^verbatim>\<open>json.loads\<close> raises another exception
    (\<^verbatim>\<open>RecursionError\<close> on a few thousand opening brackets);
  \<^item> \<open>RecvJson v\<close>: \<^verbatim>\<open>json.loads\<close> returns \<open>v\<close>.
  A frame on the wire is \<^verbatim>\<open>json.dumps(response).encode() + b'\n'\<close>; the model
  keeps the response object that is serialised.
\<close>

datatype recv_result =
    RecvRaises exn
  | RecvEmpty
  | RecvUndecodable
  | RecvNotJson
  | RecvLoadsRaises exn
  | RecvJson json

datatype send_result = SendOk | SendRaises exn

text \<open>
  One turn of the loop as the outside world drives it: what \<^verbatim>\<open>recv\<close> gives, what
  the world answers while the message is handled, and what the one
  \<^verbatim>\<open>client_socket.send\<close> of the turn does.
\<close>

record event =
  received :: recv_result
  answers :: env
  sending :: send_result

datatype control = Continue | Break | Raise exn | Hang

definition send_frame :: "server \<Rightarrow> json \<Rightarrow> send_result \<Rightarrow> server \<times> json list \<times> control" where
  "send_frame s frame r =
     (case r of
        SendOk \<Rightarrow> (s, [frame], Continue)
      | SendRaises e \<Rightarrow> (s, [], Raise e))"

definition iteration :: "server \<Rightarrow> event \<Rightarrow> server \<times> json list \<times> control" where
  \<comment> \<open>the body of \<^verbatim>\<open>while self.running\<close>: the state, the frames sent, and how the
      body is left (\<open>Hang\<close>: it is not, the handler never returns). Only
      \<^verbatim>\<open>json.JSONDecodeError\<close> is caught inside the loop. The \<^verbatim>\<open>logger.debug\<close>
      line calls \<^verbatim>\<open>message.get\<close> before the handler does.\<close>
  "iteration s ev =
     (case received ev of
        RecvRaises e \<Rightarrow> (s, [], Raise e)
      | RecvEmpty \<Rightarrow> (s, [], Break)
      | RecvUndecodable \<Rightarrow> (s, [], Raise UnicodeDecodeError)
      | RecvLoadsRaises e \<Rightarrow> (s, [], Raise e)
      | RecvNotJson \<Rightarrow> send_frame s (error_response (ustr ''Invalid JSON format'')) (sending ev)
      | RecvJson message \<Rightarrow>
          (case message of
             JDict kvs \<Rightarrow>
               (case handle_client_message (answers ev) s message of
                  (s', None) \<Rightarrow> (s', [], Hang)
                | (s', Some (Inl e)) \<Rightarrow> (s', [], Raise e)
                | (s', Some (Inr response)) \<Rightarrow> send_frame s' response (sending ev))
           | _ \<Rightarrow> (s, [], Raise AttributeError)))"

text \<open>
  How the loop is left: \<open>Ended\<close> by \<^verbatim>\<open>break\<close> or a false
  \<^verbatim>\<open>self.running\<close>, \<open>Raised e\<close> by an exception. It is not left when the worker
  waits in \<^verbatim>\<open>recv\<close> for input that has not come yet (\<open>Blocked\<close>), or in a
  handler that never returns (\<open>Hung\<close>).
\<close>

datatype loop_end = Blocked | Ended | Raised exn | Hung

fun worker_loop :: "server \<Rightarrow> event list \<Rightarrow> server \<times> json list \<times> loop_end" where
  "worker_loop s [] = (if \<not> running s then (s, [], Ended) else (s, [], Blocked))"
| "worker_loop s (ev # rest) =
     (if \<not> running s then (s, [], Ended)
      else
        (case iteration s ev of
           (s', out, Continue) \<Rightarrow>
             (case worker_loop s' rest of (s'', out', r) \<Rightarrow> (s'', out @ out', r))
         | (s', out, Break) \<Rightarrow> (s', out, Ended)
         | (s', out, Raise e) \<Rightarrow> (s', out, Raised e)
         | (s', out, Hang) \<Rightarrow> (s', out, Hung)))"

text \<open>
  An accepted connection: the socket, the peer address, \<^verbatim>\<open>time.time()\<close> and
  \<^verbatim>\<open>datetime.now().isoformat()\<close> at the accept, what sending the welcome frame
  does, and the turns of the loop that the peer and the world drive.
\<close>

record connection =
  conn_socket :: nat
  conn_address :: "pystr \<times> int"
  conn_time :: pyfloat
  welcome_time :: pystr
  welcome_sending :: send_result
  events :: "event list"

definition client_id :: "pystr \<times> int \<Rightarrow> pystr" where
  "client_id a = fst a @ ustr '':'' @ str_int (snd a)"

definition welcome_msg :: "connection \<Rightarrow> json" where
  "welcome_msg c =
     JDict [(ustr ''type'', JStr (ustr ''welcome'')),
            (ustr ''message'', JStr (ustr ''Connected to Remote Host Server'')),
            (ustr ''server_time'', JStr (welcome_time c))]"

definition register_client :: "server \<Rightarrow> connection \<Rightarrow> server" where
  \<comment> \<open>\<^verbatim>\<open>self.clients[client_id] = {...}\<close>\<close>
  "register_client s c =
     s\<lparr>clients :=
         AList.update (client_id (conn_address c))
           \<lparr> socket = conn_socket c, address = conn_address c,
             connected_at = conn_time c, authenticated = False \<rparr>
           (clients s)\<rparr>"

definition close_client :: "server \<Rightarrow> connection \<Rightarrow> server" where
  \<comment> \<open>the \<^verbatim>\<open>finally\<close> block\<close>
  "close_client s c =
     s\<lparr>closed_sockets := closed_sockets s @ [conn_socket c],
       clients := AList.delete (client_id (conn_address c)) (clients s)\<rparr>"

definition handle_client :: "server \<Rightarrow> connection \<Rightarrow> server \<times> json list \<times> loop_end" where
  \<comment> \<open>the state, the frames sent and how the loop was left; on \<open>Blocked\<close> and on
      \<open>Hung\<close> the method has not returned, otherwise it has run its \<^verbatim>\<open>finally\<close>
      block. Both \<^verbatim>\<open>except\<close> clauses only log.\<close>
  "handle_client s c =
     (let s1 = register_client s c in
      case welcome_sending c of
        SendRaises e \<Rightarrow> (close_client s1 c, [], Raised e)
      | SendOk \<Rightarrow>
          (case worker_loop s1 (events c) of
             (s2, out, Blocked) \<Rightarrow> (s2, welcome_msg c # out, Blocked)
           | (s2, out, Hung) \<Rightarrow> (s2, welcome_msg c # out, Hung)
           | (s2, out, r) \<Rightarrow> (close_client s2 c, welcome_msg c # out, r)))"

section \<open>The Connection Supervisor: \<^verbatim>\<open>stop\<close>\<close>

definition stop :: "server \<Rightarrow> server" where
  \<comment> \<open>a \<^verbatim>\<open>close()\<close> that raises is passed over; logging has no effect on the state\<close>
  "stop s =
     s\<lparr>running := False,
       closed_sockets :=
         closed_sockets s @ map (\<lambda>kv. socket (snd kv)) (clients s)
           @ (case server_socket s of None \<Rightarrow> [] | Some k \<Rightarrow> [k])\<rparr>"

section \<open>The vocabulary of the properties\<close>

definition dict_keys :: "json \<Rightarrow> pystr list" where
  \<comment> \<open>the field names of a response object, in order\<close>
  "dict_keys v = (case v of JDict kvs \<Rightarrow> map fst kvs | _ \<Rightarrow> [])"

definition hashable :: "json \<Rightarrow> bool" where
  \<comment> \<open>a list and a dict are the JSON values that Python cannot hash\<close>
  "hashable v = (case v of JList xs \<Rightarrow> False | JDict kvs \<Rightarrow> False | _ \<Rightarrow> True)"

definition in_session_table :: "server \<Rightarrow> json \<Rightarrow> bool" where
  \<comment> \<open>the value is a key of the Session Table, whose keys are strings\<close>
  "in_session_table s v = (case v of JStr t \<Rightarrow> auth_tokens s t \<noteq> None | _ \<Rightarrow> False)"

definition entry_flag :: "server \<Rightarrow> connection \<Rightarrow> bool option" where
  \<comment> \<open>the \<^verbatim>\<open>authenticated\<close> flag of the connection's registry entry, if it has one\<close>
  "entry_flag s c = map_option authenticated (map_of (clients s) (client_id (conn_address c)))"

definition auth_request :: "json \<Rightarrow> json \<Rightarrow> json" where
  "auth_request u p =
     JDict [(ustr ''type'', JStr (ustr ''auth'')), (ustr ''username'', u), (ustr ''password'', p)]"

definition command_request :: "json \<Rightarrow> json \<Rightarrow> json" where
  "command_request t c =
     JDict [(ustr ''type'', JStr (ustr ''command'')), (ustr ''token'', t), (ustr ''command'', c)]"

definition system_info_request :: "json \<Rightarrow> json" where
  "system_info_request t =
     JDict [(ustr ''type'', JStr (ustr ''system_info'')), (ustr ''token'', t)]"

section \<open>Concrete requests and states\<close>

definition env0 :: env where
  "env0 =
     \<lparr> token_bytes = 0, process = Exited (ustr ''hi'' @ [10]) [] 0,
       gethostname = ustr ''host'', sys_platform = ustr ''linux'',
       sys_version = ustr ''3.11.10'', now_isoformat = ustr ''2024-01-01T00:00:00'',
       rendered_type = ustr ''None'' \<rparr>"

definition env1 :: env where
  \<comment> \<open>as \<open>env0\<close>, with another draw of the random source\<close>
  "env1 = env0\<lparr>token_bytes := 1\<rparr>"

definition server0 :: server where
  \<comment> \<open>the server of \<^verbatim>\<open>main\<close> with its default arguments, once \<^verbatim>\<open>start\<close> has
      set \<^verbatim>\<open>running\<close>\<close>
  "server0 = (init_server (ustr ''0.0.0.0'') 3389)\<lparr>server_socket := Some 0, running := True\<rparr>"

definition server1 :: server where
  \<comment> \<open>\<open>server0\<close> once \<^verbatim>\<open>admin\<close> has logged in\<close>
  "server1 =
     fst (handle_client_message env0 server0
            (auth_request (JStr (ustr ''admin'')) (JStr (ustr ''admin123''))))"

definition server2 :: server where
  \<comment> \<open>\<open>server1\<close> once \<^verbatim>\<open>user\<close> has logged in too, with the draw of \<open>env1\<close>\<close>
  "server2 =
     fst (handle_client_message env1 server1
            (auth_request (JStr (ustr ''user'')) (JStr (ustr ''user123''))))"

definition conn0 :: connection where
  "conn0 =
     \<lparr> conn_socket = 7, conn_address = (ustr ''10.0.0.5'', 40000), conn_time = FNum 1700000000 0,
       welcome_time = ustr ''2024-01-01T00:00:00'', welcome_sending = SendOk, events = [] \<rparr>"

definition turn :: "recv_result \<Rightarrow> event" where
  \<comment> \<open>a turn of the loop under \<open>env0\<close> whose send succeeds\<close>
  "turn r = \<lparr> received = r, answers = env0, sending = SendOk \<rparr>"

definition login_then_command :: "event list" where
  \<comment> \<open>\<^verbatim>\<open>admin\<close> logs in and then runs a command with the token received\<close>
  "login_then_command =
     [turn (RecvJson (auth_request (JStr (ustr ''admin'')) (JStr (ustr ''admin123'')))),
      turn (RecvJson (command_request (JStr (generate_token env0)) (JStr (ustr ''echo hi''))))]"

section \<open>Properties\<close>

subsection \<open>Auxiliary facts\<close>

lemma ustr_eq_iff [simp]: "ustr a = ustr b \<longleftrightarrow> a = b"
  by (simp add: ustr_def inj_on_def)

lemma ustr_Nil_iff [simp]: "ustr a = [] \<longleftrightarrow> a = []"
  by (simp add: ustr_def)

lemma length_bytes_hex: "length (bytes_hex bs) = 2 * length bs"
  by (induction bs) (simp_all add: bytes_hex_def hex_of_byte_def)

lemma length_token_hex: "length (token_hex w) = 64"
  by (simp add: token_hex_def length_bytes_hex)

lemma last_token_hex: "last (token_hex w) = hex_digit (unat (ucast w :: byte) mod 16)"
proof -
  have "[0..<Suc 31] = [0..<31] @ [31::nat]"
    by (rule upt_Suc_append) simp
  then have "[0..<32] = [0..<31] @ [31::nat]"
    by simp
  then have "token_hex w =
      bytes_hex (map (\<lambda>i. ucast (drop_bit (8 * (31 - i)) w)) [0..<31]) @ hex_of_byte (ucast w)"
    by (simp add: token_hex_def bytes_hex_def)
  then show ?thesis
    by (simp add: hex_of_byte_def)
qed

lemma tokens_0_1_differ: "generate_token env0 \<noteq> generate_token env1"
proof
  assume "generate_token env0 = generate_token env1"
  then have "last (token_hex 0) = last (token_hex 1)"
    by (simp add: generate_token_def env0_def env1_def)
  then show False
    by (simp add: last_token_hex hex_digit_def)
qed

lemma generate_token_not_empty: "generate_token env \<noteq> []"
  using length_token_hex [of "token_bytes env"] by (auto simp: generate_token_def)

lemma short_text_is_no_token:
  assumes "length t < 64"
  shows "t \<noteq> generate_token env"
proof
  assume "t = generate_token env"
  then have "length t = 64"
    by (simp add: generate_token_def length_token_hex)
  with assms show False by simp
qed

lemma dict_get_Nil: "dict_get [] k = JNull"
  by (simp add: dict_get_def)

lemma dict_get_Cons: "dict_get ((k', v) # kvs) k = (if k' = ustr k then v else dict_get kvs k)"
  by (simp add: dict_get_def)

lemma hash_password_not_str:
  assumes "\<forall>p. password \<noteq> JStr p"
  shows "hash_password password = Inl AttributeError"
  using assms by (cases password) (simp_all add: hash_password_def)

lemma authenticate_strings:
  assumes "hash_password (JStr p) = Inr h"
  shows "authenticate env s (JStr u) (JStr p) =
           (if credentials s u = Some h
            then (s\<lparr>auth_tokens := (auth_tokens s)(generate_token env \<mapsto> u)\<rparr>,
                  Inr (Some (generate_token env)))
            else (s, Inr None))"
  using assms by (auto simp: authenticate_def dict_contains_def Let_def)

lemma handle_auth_strings:
  assumes "dict_get kvs ''type'' = JStr (ustr ''auth'')"
    and "dict_get kvs ''username'' = JStr u"
    and "dict_get kvs ''password'' = JStr p"
    and "hash_password (JStr p) = Inr h"
  shows "handle_client_message env s (JDict kvs) =
           (if credentials s u = Some h
            then (s\<lparr>auth_tokens := (auth_tokens s)(generate_token env \<mapsto> u)\<rparr>,
                  Some (Inr (auth_success (generate_token env))))
            else (s, Some (Inr auth_failure)))"
  using assms
  by (simp add: handle_client_message_def authenticate_strings generate_token_not_empty)

lemma validate_token_cases:
  "validate_token s tok =
     (if \<not> hashable tok then Inl TypeError else Inr (in_session_table s tok))"
  by (cases tok)
    (simp_all add: validate_token_def dict_contains_def hashable_def in_session_table_def)

lemma in_session_table_hashable: "in_session_table s tok \<Longrightarrow> hashable tok"
  by (cases tok) (simp_all add: in_session_table_def hashable_def)

text \<open>The handler and the loop leave the registry and the running flag alone.\<close>

lemma clients_handle_client_message:
  "clients (fst (handle_client_message env s m)) = clients s"
  by (auto simp: handle_client_message_def authenticate_def execute_command_def Let_def
      split: json.splits sum.splits option.splits prod.splits)

lemma running_handle_client_message:
  "running (fst (handle_client_message env s m)) = running s"
  by (auto simp: handle_client_message_def authenticate_def execute_command_def Let_def
      split: json.splits sum.splits option.splits prod.splits)

lemma clients_handled:
  "handle_client_message env s m = (s', r) \<Longrightarrow> clients s' = clients s"
  using clients_handle_client_message [of env s m] by simp

lemma running_handled:
  "handle_client_message env s m = (s', r) \<Longrightarrow> running s' = running s"
  using running_handle_client_message [of env s m] by simp

lemma clients_iteration: "clients (fst (iteration s ev)) = clients s"
  by (auto simp: iteration_def send_frame_def dest: clients_handled
      split: recv_result.splits json.splits sum.splits prod.splits send_result.splits
        option.splits)

lemma running_iteration: "iteration s ev = (s', out, ctl) \<Longrightarrow> running s' = running s"
  by (auto simp: iteration_def send_frame_def dest: running_handled
      split: recv_result.splits json.splits sum.splits prod.splits send_result.splits
        option.splits)

lemma clients_worker_loop: "clients (fst (worker_loop s evs)) = clients s"
proof (induction evs arbitrary: s)
  case Nil
  then show ?case by simp
next
  case (Cons ev rest)
  show ?case
  proof (cases "iteration s ev")
    case (fields s' out ctl)
    then have c: "clients s' = clients s"
      using clients_iteration [of s ev] by simp
    show ?thesis
      using fields c Cons.IH [of s']
      by (cases ctl; cases "worker_loop s' rest") auto
  qed
qed

lemma running_worker_loop: "running (fst (worker_loop s evs)) = running s"
proof (induction evs arbitrary: s)
  case Nil
  then show ?case by simp
next
  case (Cons ev rest)
  show ?case
  proof (cases "iteration s ev")
    case (fields s' out ctl)
    then have c: "running s' = running s"
      using running_iteration by simp
    show ?thesis
      using fields c Cons.IH [of s']
      by (cases ctl; cases "worker_loop s' rest") auto
  qed
qed

text \<open>
  Turns that leave the worker waiting for input can be followed by further turns: the
  loop goes on from the state they reached.
\<close>

lemma worker_loop_append:
  "worker_loop s pre = (s', out, Blocked) \<Longrightarrow>
   worker_loop s (pre @ evs) =
     (case worker_loop s' evs of (s'', out', r) \<Rightarrow> (s'', out @ out', r))"
proof (induction pre arbitrary: s out)
  case Nil
  then show ?case by (cases evs) (auto split: if_splits prod.splits control.splits)
next
  case (Cons ev pre)
  from Cons.prems have run: "running s"
    by (auto split: if_splits)
  obtain s1 out1 ctl where it: "iteration s ev = (s1, out1, ctl)"
    by (cases "iteration s ev")
  with Cons.prems run have ctl: "ctl = Continue"
    by (cases ctl) auto
  obtain s2 out2 r2 where rest: "worker_loop s1 pre = (s2, out2, r2)"
    by (cases "worker_loop s1 pre")
  with Cons.prems run it ctl have eqs: "s2 = s'" "out = out1 @ out2" "r2 = Blocked"
    by auto
  from Cons.IH [of s1 out2] rest eqs
  have "worker_loop s1 (pre @ evs) =
          (case worker_loop s' evs of (s'', out', r) \<Rightarrow> (s'', out2 @ out', r))"
    by simp
  with run it ctl eqs show ?case
    by (auto split: prod.splits)
qed

lemma entry_flag_register: "entry_flag (register_client s c) c = Some False"
  by (simp add: entry_flag_def register_client_def update_conv')

lemma entry_flag_close: "entry_flag (close_client s c) c = None"
  by (simp add: entry_flag_def close_client_def delete_conv')

text \<open>The concrete server, before and after the login of \<^verbatim>\<open>admin\<close>.\<close>

lemma hash_admin123:
  "hash_password (JStr (ustr ''admin123'')) =
     Inr (sha256_hexdigest (concat (map utf8_char (ustr ''admin123''))))"
  by (simp add: hash_password_def str_encode_def ustr_def is_surrogate_def)

lemma hash_user123:
  "hash_password (JStr (ustr ''user123'')) =
     Inr (sha256_hexdigest (concat (map utf8_char (ustr ''user123''))))"
  by (simp add: hash_password_def str_encode_def ustr_def is_surrogate_def)

lemma server0_fields:
  "credentials server0 (ustr ''admin'') =
     Some (sha256_hexdigest (concat (map utf8_char (ustr ''admin123''))))"
  "credentials server0 (ustr ''user'') =
     Some (sha256_hexdigest (concat (map utf8_char (ustr ''user123''))))"
  "credentials server0 (ustr ''mallory'') = None"
  "auth_tokens server0 = Map.empty"
  "running server0"
  by (simp_all add: server0_def init_server_def)

lemma server1_eq:
  "server1 = server0\<lparr>auth_tokens := [generate_token env0 \<mapsto> ustr ''admin'']\<rparr>"
  using handle_auth_strings [of "[(ustr ''type'', JStr (ustr ''auth'')),
      (ustr ''username'', JStr (ustr ''admin'')), (ustr ''password'', JStr (ustr ''admin123''))]"
      "ustr ''admin''" "ustr ''admin123''" _ env0 server0, OF _ _ _ hash_admin123]
  by (simp add: server1_def auth_request_def dict_get_Cons server0_fields)

lemma server2_eq:
  "server2 = server0\<lparr>auth_tokens := [generate_token env0 \<mapsto> ustr ''admin'',
                                         generate_token env1 \<mapsto> ustr ''user'']\<rparr>"
  using handle_auth_strings [of "[(ustr ''type'', JStr (ustr ''auth'')),
      (ustr ''username'', JStr (ustr ''user'')), (ustr ''password'', JStr (ustr ''user123''))]"
      "ustr ''user''" "ustr ''user123''" _ env1 server1, OF _ _ _ hash_user123]
  by (simp add: server2_def auth_request_def dict_get_Cons server1_eq server0_fields)

lemma login_turn:
  "iteration (register_client server0 c)
       (turn (RecvJson (auth_request (JStr (ustr ''admin'')) (JStr (ustr ''admin123''))))) =
     ((register_client server0 c)\<lparr>auth_tokens := [generate_token env0 \<mapsto> ustr ''admin'']\<rparr>,
      [auth_success (generate_token env0)], Continue)"
  using handle_auth_strings [of "[(ustr ''type'', JStr (ustr ''auth'')),
      (ustr ''username'', JStr (ustr ''admin'')), (ustr ''password'', JStr (ustr ''admin123''))]"
      "ustr ''admin''" "ustr ''admin123''" _ env0 "register_client server0 c",
      OF _ _ _ hash_admin123]
  by (auto simp: iteration_def turn_def auth_request_def dict_get_Cons send_frame_def
      register_client_def server0_fields)

text \<open>
  A chunk that decodes but is no JSON is answered by the one error frame, and the
  loop goes on with the next turn in the same state. A chunk that does not decode
  ends the loop by the exception, with no frame sent, whatever turns would follow.
\<close>

lemma invalid_json_keeps_connection:
  assumes "running s" and "received ev = RecvNotJson" and "sending ev = SendOk"
  shows "worker_loop s (ev # rest) =
           (case worker_loop s rest of
              (s', out, r) \<Rightarrow> (s', error_response (ustr ''Invalid JSON format'') # out, r))"
  using assms by (simp add: iteration_def send_frame_def split: prod.splits)

lemma undecodable_chunk_ends_loop:
  assumes "running s" and "received ev = RecvUndecodable"
  shows "worker_loop s (ev # rest) = (s, [], Raised UnicodeDecodeError)"
  using assms by (simp add: iteration_def)

text \<open>
  A request on which the handler raises ends the loop by the exception, with no frame
  sent, and \<^verbatim>\<open>_handle_client\<close> then closes the socket and removes the entry.
\<close>

lemma raising_request_ends_loop:
  assumes "running s" and "received ev = RecvJson (JDict kvs)"
    and "handle_client_message (answers ev) s (JDict kvs) = (s, Some (Inl e))"
  shows "worker_loop s (ev # rest) = (s, [], Raised e)"
  using assms by (simp add: iteration_def)

lemma raising_first_request_closes:
  assumes "running s" and "welcome_sending c = SendOk" and "events c = ev # rest"
    and "received ev = RecvJson (JDict kvs)"
    and "handle_client_message (answers ev) (register_client s c) (JDict kvs) =
           (register_client s c, Some (Inl e))"
  shows "handle_client s c =
           (close_client (register_client s c) c, [welcome_msg c], Raised e)"
proof -
  have "running (register_client s c)"
    using assms(1) by (simp add: register_client_def)
  then have "worker_loop (register_client s c) (events c) = (register_client s c, [], Raised e)"
    using assms(3-5) raising_request_ends_loop by simp
  then show ?thesis
    using assms(2) by (simp add: handle_client_def)
qed

subsection \<open>The Command Executor\<close>

text \<open>
  C1, as the code has it. When the process has not terminated by the 30 second
  deadline, the shell is killed and both pipes are read to their end, and what
  \<^verbatim>\<open>_execute_command\<close> does is one of three things. If the read returns, the
  result has exit code 1 and the stderr text "Command timed out", and its stdout is
  everything that was read from the stdout pipe: the partial output buffered at the
  deadline, followed by what processes that outlive the shell wrote until the pipe
  was closed. Nothing of it is discarded; what was written to stderr is. If the kill
  or the read raises, the result has exit code 1, an empty stdout and the stderr text
  "Error executing command: " followed by the exception's message. If the pipe is
  never closed, the method does not return.
\<close>

theorem timeout_outcomes:
  "snd (execute_command (env\<lparr>process := TimedOut out err (Drained out' err')\<rparr>) s command) =
     Some (out @ out', ustr ''Command timed out'', 1)
   \<and> snd (execute_command (env\<lparr>process := TimedOut out err (DrainRaises msg)\<rparr>) s command) =
     Some ([], ustr ''Error executing command: '' @ msg, 1)
   \<and> snd (execute_command (env\<lparr>process := TimedOut out err DrainBlocks\<rparr>) s command) = None"
  by (simp add: execute_command_def)

text \<open>
  C1 as it is stated fails in each of the three. A command that prints
  \<^verbatim>\<open>early\<close>, leaves a child behind that prints \<^verbatim>\<open>late\<close> after the kill,
  and outlasts the deadline is reported with both lines as stdout, not with an empty
  stdout. A command whose output is not text makes the read raise, and the stderr
  reported is not "Command timed out". A command that leaves a child behind which
  never ends gets no result at all.
\<close>

theorem timeout_stdout_not_empty:
  "res_stdout (execute_command
       (env0\<lparr>process := TimedOut (ustr ''early'' @ [10]) [] (Drained (ustr ''late'' @ [10]) [])\<rparr>)
       server0 (JStr (ustr ''echo early; (sleep 40; echo late) & sleep 60''))) =
     Some (ustr ''early'' @ [10] @ ustr ''late'' @ [10])
   \<and> res_stdout (execute_command
       (env0\<lparr>process := TimedOut (ustr ''early'' @ [10]) [] (Drained (ustr ''late'' @ [10]) [])\<rparr>)
       server0 (JStr (ustr ''echo early; (sleep 40; echo late) & sleep 60''))) \<noteq> Some []
   \<and> res_stderr (execute_command
       (env0\<lparr>process := TimedOut [] [] (DrainRaises (ustr ''invalid start byte''))\<rparr>)
       server0 (JStr (ustr ''cat /bin/sh; sleep 60''))) \<noteq> Some (ustr ''Command timed out'')
   \<and> snd (execute_command (env0\<lparr>process := TimedOut [] [] DrainBlocks\<rparr>)
       server0 (JStr (ustr ''sleep infinity; true''))) = None"
  by (simp add: execute_command_def res_stdout_def res_stderr_def ustr_def)

text \<open>
  C7. Whenever spawning the process fails, that is \<^verbatim>\<open>subprocess.Popen\<close> raises,
  \<^verbatim>\<open>_execute_command\<close> returns a result: exit code 1, an empty stdout, and a stderr
  that is not empty, the text "Error executing command: " followed by the exception's
  message. The result is a value of the function, whatever the command is.
\<close>

theorem spawn_failure_is_reported:
  "res_returncode (execute_command (env\<lparr>process := PopenRaises msg\<rparr>) s command) = Some 1
   \<and> res_stdout (execute_command (env\<lparr>process := PopenRaises msg\<rparr>) s command) = Some []
   \<and> res_stderr (execute_command (env\<lparr>process := PopenRaises msg\<rparr>) s command)
       = Some (ustr ''Error executing command: '' @ msg)
   \<and> ustr ''Error executing command: '' @ msg \<noteq> []"
  by (simp add: execute_command_def res_stdout_def res_stderr_def res_returncode_def)

subsection \<open>Shutdown\<close>

text \<open>
  C2, as the code has it. \<^verbatim>\<open>stop\<close> leaves the Session Table as it is: every
  token validates after \<^verbatim>\<open>stop\<close> exactly as it did before.
\<close>

theorem stop_keeps_sessions:
  "auth_tokens (stop s) = auth_tokens s \<and> validate_token (stop s) tok = validate_token s tok"
  by (simp add: stop_def validate_token_def)

text \<open>
  C2 as it is stated fails: the token that \<^verbatim>\<open>admin\<close> was issued before the
  shutdown is still in the Session Table after \<^verbatim>\<open>stop\<close>, and validates.
\<close>

theorem sessions_survive_stop:
  "auth_tokens (stop server1) (generate_token env0) = Some (ustr ''admin'')
   \<and> validate_token (stop server1) (JStr (generate_token env0)) = Inr True"
  by (simp add: stop_def validate_token_def dict_contains_def server1_eq)

subsection \<open>Authentication\<close>

text \<open>
  What an \<^verbatim>\<open>auth\<close> request does when its user name and password are strings and
  the password has a hash \<open>h\<close>. If the user name is registered in the Credential Store
  with the hash \<open>h\<close>, the handler returns an \<^verbatim>\<open>auth_response\<close> with
  \<^verbatim>\<open>success\<close> true and a token, it has entered the token in the Session Table,
  and the token validates at once. For every other such pair it returns an
  \<^verbatim>\<open>auth_response\<close> with \<^verbatim>\<open>success\<close> false that has no \<^verbatim>\<open>token\<close>
  field, and the state, the Session Table with it, is unchanged.
\<close>

lemma auth_request_outcome:
  assumes "dict_get kvs ''type'' = JStr (ustr ''auth'')"
    and "dict_get kvs ''username'' = JStr u"
    and "dict_get kvs ''password'' = JStr p"
    and "hash_password (JStr p) = Inr h"
  shows "(credentials s u = Some h \<longrightarrow>
            handle_client_message env s (JDict kvs) =
              (s\<lparr>auth_tokens := (auth_tokens s)(generate_token env \<mapsto> u)\<rparr>,
               Some (Inr (auth_success (generate_token env))))
            \<and> validate_token (fst (handle_client_message env s (JDict kvs)))
                 (JStr (generate_token env)) = Inr True)
       \<and> (credentials s u \<noteq> Some h \<longrightarrow>
            handle_client_message env s (JDict kvs) = (s, Some (Inr auth_failure))
            \<and> ustr ''token'' \<notin> set (dict_keys auth_failure))"
  using handle_auth_strings [OF assms, of env s]
  by (simp add: validate_token_def dict_contains_def dict_keys_def auth_failure_def)

text \<open>
  The default server answers \<^verbatim>\<open>admin\<close> with \<^verbatim>\<open>admin123\<close> by a token that
  validates, and the unregistered \<^verbatim>\<open>mallory\<close> by a failure.
\<close>

lemma auth_request_outcome_example:
  "handle_client_message env0 server0
       (auth_request (JStr (ustr ''admin'')) (JStr (ustr ''admin123''))) =
     (server0\<lparr>auth_tokens := (auth_tokens server0)(generate_token env0 \<mapsto> ustr ''admin'')\<rparr>,
      Some (Inr (auth_success (generate_token env0))))
   \<and> validate_token
         (fst (handle_client_message env0 server0
                 (auth_request (JStr (ustr ''admin'')) (JStr (ustr ''admin123'')))))
         (JStr (generate_token env0)) = Inr True
   \<and> handle_client_message env0 server0
         (auth_request (JStr (ustr ''mallory'')) (JStr (ustr ''admin123''))) =
       (server0, Some (Inr auth_failure))"
  using auth_request_outcome [of "[(ustr ''type'', JStr (ustr ''auth'')),
      (ustr ''username'', JStr (ustr ''admin'')), (ustr ''password'', JStr (ustr ''admin123''))]"
      "ustr ''admin''" "ustr ''admin123''" _ server0 env0, OF _ _ _ hash_admin123]
    auth_request_outcome [of "[(ustr ''type'', JStr (ustr ''auth'')),
      (ustr ''username'', JStr (ustr ''mallory'')), (ustr ''password'', JStr (ustr ''admin123''))]"
      "ustr ''mallory''" "ustr ''admin123''" _ server0 env0, OF _ _ _ hash_admin123]
  by (auto simp: auth_request_def dict_get_Cons server0_fields)

text \<open>
  C3 at its failing input. The request
  \<^verbatim>\<open>{"type": "auth", "username": "admin", "password": "\ud800"}\<close> carries a pair
  of strings that is not in the Credential Store. \<^verbatim>\<open>password.encode()\<close> raises
  \<^verbatim>\<open>UnicodeEncodeError\<close> on it, so the handler returns no \<^verbatim>\<open>auth_response\<close>
  where every other wrong password gets one with \<^verbatim>\<open>success\<close> false. On a
  connection whose first request it is, the worker sends the welcome frame and nothing
  else, the exception closes the socket, and the login that follows is never handled.
\<close>

theorem surrogate_password_raises:
  "handle_client_message env0 server0 (auth_request (JStr (ustr ''admin'')) (JStr [0xD800])) =
     (server0, Some (Inl UnicodeEncodeError))
   \<and> handle_client server0
       (conn0\<lparr>events :=
          [turn (RecvJson (auth_request (JStr (ustr ''admin'')) (JStr [0xD800]))),
           turn (RecvJson (auth_request (JStr (ustr ''admin'')) (JStr (ustr ''admin123''))))]\<rparr>) =
     (close_client (register_client server0 conn0) conn0, [welcome_msg conn0],
      Raised UnicodeEncodeError)
   \<and> conn_socket conn0 \<in> set (closed_sockets (close_client (register_client server0 conn0) conn0))"
proof -
  have h: "handle_client_message env0 s (auth_request (JStr (ustr ''admin'')) (JStr [0xD800])) =
             (s, Some (Inl UnicodeEncodeError))" for s
    by (simp add: handle_client_message_def auth_request_def dict_get_Cons authenticate_def
        hash_password_def str_encode_def is_surrogate_def)
  let ?c = "conn0\<lparr>events :=
          [turn (RecvJson (auth_request (JStr (ustr ''admin'')) (JStr [0xD800]))),
           turn (RecvJson (auth_request (JStr (ustr ''admin'')) (JStr (ustr ''admin123''))))]\<rparr>"
  have reg: "register_client server0 ?c = register_client server0 conn0"
    by (simp add: register_client_def)
  have "handle_client server0 ?c =
          (close_client (register_client server0 ?c) ?c, [welcome_msg ?c], Raised UnicodeEncodeError)"
    by (rule raising_first_request_closes
        [where kvs = "[(ustr ''type'', JStr (ustr ''auth'')),
           (ustr ''username'', JStr (ustr ''admin'')), (ustr ''password'', JStr [0xD800])]"
         and ev = "turn (RecvJson (auth_request (JStr (ustr ''admin'')) (JStr [0xD800])))"
         and rest = "[turn (RecvJson (auth_request (JStr (ustr ''admin''))
                               (JStr (ustr ''admin123''))))]"])
      (simp_all add: server0_fields conn0_def turn_def h [unfolded auth_request_def] auth_request_def)
  then show ?thesis
    using h [of server0] by (simp add: reg close_client_def welcome_msg_def)
qed

text \<open>
  C5, as the code has it. Session creation makes no check against the Session Table.
  Whenever the credentials match, whatever the table holds, the token returned is
  the hexadecimal text of the random source's output, and it is entered by
  assignment: every entry under another token is kept, and when the token is already
  a key of the table, it is returned again and its entry is replaced by one for the
  user who logs in now.
\<close>

theorem session_creation_overwrites:
  assumes "hash_password (JStr p) = Inr h" and "credentials s u = Some h"
  shows "authenticate env s (JStr u) (JStr p) =
           (s\<lparr>auth_tokens := (auth_tokens s)(token_hex (token_bytes env) \<mapsto> u)\<rparr>,
            Inr (Some (token_hex (token_bytes env))))
       \<and> (\<forall>t. t \<noteq> token_hex (token_bytes env) \<longrightarrow>
             auth_tokens (fst (authenticate env s (JStr u) (JStr p))) t = auth_tokens s t)
       \<and> (auth_tokens s (token_hex (token_bytes env)) \<noteq> None \<longrightarrow>
             snd (authenticate env s (JStr u) (JStr p)) = Inr (Some (token_hex (token_bytes env)))
             \<and> auth_tokens (fst (authenticate env s (JStr u) (JStr p))) (token_hex (token_bytes env))
                 = Some u)"
  using assms by (simp add: authenticate_strings generate_token_def)

text \<open>
  \<^verbatim>\<open>admin\<close> and \<^verbatim>\<open>user\<close> both have a session, and \<^verbatim>\<open>admin\<close> logs in
  again while the random source repeats the draw that gave the token of
  \<^verbatim>\<open>user\<close>. That live token is returned, its entry now names \<^verbatim>\<open>admin\<close>, and
  the entry under the other token stays.
\<close>

theorem session_creation_overwrites_witness:
  "auth_tokens server2 (generate_token env1) = Some (ustr ''user'')
   \<and> authenticate env1 server2 (JStr (ustr ''admin'')) (JStr (ustr ''admin123'')) =
       (server2\<lparr>auth_tokens := (auth_tokens server2)(generate_token env1 \<mapsto> ustr ''admin'')\<rparr>,
        Inr (Some (generate_token env1)))
   \<and> auth_tokens (fst (authenticate env1 server2 (JStr (ustr ''admin'')) (JStr (ustr ''admin123''))))
         (generate_token env1) = Some (ustr ''admin'')
   \<and> auth_tokens (fst (authenticate env1 server2 (JStr (ustr ''admin'')) (JStr (ustr ''admin123''))))
         (generate_token env0) = Some (ustr ''admin'')
   \<and> auth_tokens server2 (generate_token env0) = Some (ustr ''admin'')"
proof -
  have c: "credentials server2 (ustr ''admin'') =
             Some (sha256_hexdigest (concat (map utf8_char (ustr ''admin123''))))"
    by (simp add: server2_eq server0_fields)
  have live: "auth_tokens server2 (generate_token env1) = Some (ustr ''user'')"
    by (simp add: server2_eq)
  have other: "auth_tokens server2 (generate_token env0) = Some (ustr ''admin'')"
    using tokens_0_1_differ by (simp add: server2_eq)
  show ?thesis
    using session_creation_overwrites [OF hash_admin123 c, of env1] live other tokens_0_1_differ
    by (simp add: generate_token_def)
qed

text \<open>
  C5 as it is stated fails: while the token of \<^verbatim>\<open>admin\<close> is live, the random
  source gives the same output again at the login of \<^verbatim>\<open>user\<close>. The token
  returned is already a key of the table, and the assignment replaces the session of
  \<^verbatim>\<open>admin\<close> by one of \<^verbatim>\<open>user\<close>.
\<close>

theorem live_token_reused:
  "auth_tokens server1 (generate_token env0) = Some (ustr ''admin'')
   \<and> snd (authenticate env0 server1 (JStr (ustr ''user'')) (JStr (ustr ''user123''))) =
       Inr (Some (generate_token env0))
   \<and> auth_tokens (fst (authenticate env0 server1 (JStr (ustr ''user'')) (JStr (ustr ''user123''))))
         (generate_token env0) = Some (ustr ''user'')"
  by (simp add: authenticate_strings [OF hash_user123] server1_eq server0_fields)

subsection \<open>Requests that need a token\<close>

text \<open>
  What a \<^verbatim>\<open>command\<close> or \<^verbatim>\<open>system_info\<close> request does by its token. If the
  token is absent (\<^verbatim>\<open>get\<close> gives \<^verbatim>\<open>None\<close>) or any other hashable value that
  is not a key of the Session Table, the handler returns the error response "Invalid
  or expired token". If the token is a JSON array or object, the membership test
  raises. In both cases, whatever the \<^verbatim>\<open>command\<close> field holds, no command is
  handed to the process facility. A \<^verbatim>\<open>command\<close> request with a valid token whose
  \<^verbatim>\<open>command\<close> field is missing or falsy gets the error response "No command
  provided".
\<close>

lemma unauthenticated_request:
  assumes "dict_get kvs ''type'' = JStr (ustr ''command'')
             \<or> dict_get kvs ''type'' = JStr (ustr ''system_info'')"
  shows "(hashable (dict_get kvs ''token'') \<and> \<not> in_session_table s (dict_get kvs ''token'') \<longrightarrow>
            handle_client_message env s (JDict kvs) =
              (s, Some (Inr (error_response (ustr ''Invalid or expired token'')))))
       \<and> (\<not> hashable (dict_get kvs ''token'') \<longrightarrow>
            handle_client_message env s (JDict kvs) = (s, Some (Inl TypeError)))
       \<and> (\<not> in_session_table s (dict_get kvs ''token'') \<longrightarrow>
            popen_calls (fst (handle_client_message env s (JDict kvs))) = popen_calls s)
       \<and> (dict_get kvs ''type'' = JStr (ustr ''command'')
            \<and> in_session_table s (dict_get kvs ''token'')
            \<and> \<not> truthy (dict_get kvs ''command'') \<longrightarrow>
            handle_client_message env s (JDict kvs) =
              (s, Some (Inr (error_response (ustr ''No command provided'')))))"
  using assms
  by (auto simp: handle_client_message_def validate_token_cases Let_def
      dest: in_session_table_hashable)

text \<open>
  At the server where only \<^verbatim>\<open>admin\<close> has a session: a stale token and an absent
  token get the error response, neither runs a command, and the live token without a
  command gets "No command provided".
\<close>

lemma unauthenticated_request_example:
  "handle_client_message env0 server1 (command_request (JStr (ustr ''stale'')) (JStr (ustr ''id''))) =
     (server1, Some (Inr (error_response (ustr ''Invalid or expired token''))))
   \<and> handle_client_message env0 server1 (system_info_request JNull) =
     (server1, Some (Inr (error_response (ustr ''Invalid or expired token''))))
   \<and> popen_calls (fst (handle_client_message env0 server1
        (command_request (JStr (ustr ''stale'')) (JStr (ustr ''id''))))) = popen_calls server1
   \<and> handle_client_message env0 server1 (command_request (JStr (generate_token env0)) JNull) =
     (server1, Some (Inr (error_response (ustr ''No command provided''))))"
proof -
  have stale: "ustr ''stale'' \<noteq> generate_token env0"
    by (rule short_text_is_no_token) (simp add: ustr_def)
  show ?thesis
    using stale
      unauthenticated_request [of "[(ustr ''type'', JStr (ustr ''command'')),
        (ustr ''token'', JStr (ustr ''stale'')), (ustr ''command'', JStr (ustr ''id''))]" server1 env0]
      unauthenticated_request [of "[(ustr ''type'', JStr (ustr ''system_info'')),
        (ustr ''token'', JNull)]" server1 env0]
      unauthenticated_request [of "[(ustr ''type'', JStr (ustr ''command'')),
        (ustr ''token'', JStr (generate_token env0)), (ustr ''command'', JNull)]" server1 env0]
    by (simp add: command_request_def system_info_request_def dict_get_Cons dict_get_Nil
        hashable_def in_session_table_def server1_eq)
qed

text \<open>
  C4 at its failing input. The token \<^verbatim>\<open>[]\<close> of the request
  \<^verbatim>\<open>{"type": "command", "token": [], "command": "id"}\<close> is not in the Session
  Table. The membership test of \<^verbatim>\<open>_validate_token\<close> raises \<^verbatim>\<open>TypeError\<close> on
  it, so the handler returns no error response where an absent, a numeric or a stale
  token gets one. No command is run. On a connection whose first request it is, the
  worker sends the welcome frame and nothing else, and the exception closes the
  socket.
\<close>

theorem unhashable_token_raises:
  "\<not> in_session_table server1 (JList [])
   \<and> handle_client_message env0 server1 (command_request (JList []) (JStr (ustr ''id''))) =
       (server1, Some (Inl TypeError))
   \<and> handle_client server1
       (conn0\<lparr>events := [turn (RecvJson (command_request (JList []) (JStr (ustr ''id''))))]\<rparr>) =
     (close_client (register_client server1 conn0) conn0, [welcome_msg conn0], Raised TypeError)
   \<and> conn_socket conn0 \<in> set (closed_sockets (close_client (register_client server1 conn0) conn0))"
proof -
  have h: "handle_client_message env0 s (command_request (JList []) (JStr (ustr ''id''))) =
             (s, Some (Inl TypeError))" for s
    by (simp add: handle_client_message_def command_request_def dict_get_Cons
        validate_token_def dict_contains_def)
  let ?c = "conn0\<lparr>events := [turn (RecvJson (command_request (JList []) (JStr (ustr ''id''))))]\<rparr>"
  have reg: "register_client server1 ?c = register_client server1 conn0"
    by (simp add: register_client_def)
  have "handle_client server1 ?c =
          (close_client (register_client server1 ?c) ?c, [welcome_msg ?c], Raised TypeError)"
    by (rule raising_first_request_closes
        [where kvs = "[(ustr ''type'', JStr (ustr ''command'')),
           (ustr ''token'', JList []), (ustr ''command'', JStr (ustr ''id''))]"
         and ev = "turn (RecvJson (command_request (JList []) (JStr (ustr ''id''))))"
         and rest = "[]"])
      (simp_all add: server1_eq server0_fields conn0_def turn_def h [unfolded command_request_def]
        command_request_def)
  then show ?thesis
    using h [of server1]
    by (simp add: reg close_client_def welcome_msg_def in_session_table_def)
qed

text \<open>
  C9, as the code has it. For every \<^verbatim>\<open>system_info\<close> request that carries a valid
  token the response is the \<^verbatim>\<open>system_info_response\<close> object, whose fields are
  exactly \<^verbatim>\<open>type\<close>, \<^verbatim>\<open>hostname\<close>, \<^verbatim>\<open>platform\<close>,
  \<^verbatim>\<open>python_version\<close> and \<^verbatim>\<open>current_time\<close>.
\<close>

theorem system_info_fields:
  assumes "dict_get kvs ''type'' = JStr (ustr ''system_info'')"
    and "in_session_table s (dict_get kvs ''token'')"
  shows "handle_client_message env s (JDict kvs) = (s, Some (Inr (system_info_response env)))
       \<and> dict_keys (system_info_response env) =
           map ustr [''type'', ''hostname'', ''platform'', ''python_version'', ''current_time'']"
  using assms
  by (auto simp: handle_client_message_def validate_token_cases Let_def
      system_info_response_def dict_keys_def dest: in_session_table_hashable)

text \<open>The request of \<^verbatim>\<open>admin\<close> with the live token is answered so.\<close>

theorem system_info_fields_witness:
  "handle_client_message env0 server1 (system_info_request (JStr (generate_token env0))) =
     (server1, Some (Inr (system_info_response env0)))
   \<and> dict_keys (system_info_response env0) =
       map ustr [''type'', ''hostname'', ''platform'', ''python_version'', ''current_time'']"
  using system_info_fields [of "[(ustr ''type'', JStr (ustr ''system_info'')),
        (ustr ''token'', JStr (generate_token env0))]" server1 env0]
  by (simp add: system_info_request_def dict_get_Cons in_session_table_def server1_eq)

text \<open>
  C9 as it is stated fails: the response to a request with a valid token has no field
  \<^verbatim>\<open>version\<close>.
\<close>

theorem system_info_has_no_version_field:
  "snd (handle_client_message env0 server1 (system_info_request (JStr (generate_token env0)))) =
     Some (Inr (system_info_response env0))
   \<and> ustr ''version'' \<notin> set (dict_keys (system_info_response env0))"
  by (simp add: handle_client_message_def system_info_request_def dict_get_Cons validate_token_def
      dict_contains_def server1_eq system_info_response_def dict_keys_def)

subsection \<open>The per-connection worker\<close>

text \<open>
  C6 at its failing input. The first chunk on the connection is \<^verbatim>\<open>b'\xff\n'\<close>,
  which is not UTF-8 and so not parseable as JSON; the second is a valid
  \<^verbatim>\<open>system_info\<close> request. The worker sends the welcome frame and nothing else: no
  error frame answers the first chunk, the exception closes the socket, and the valid
  request is never handled.
\<close>

theorem undecodable_frame_closes_connection:
  "handle_client server1
       (conn0\<lparr>events := [turn RecvUndecodable,
                          turn (RecvJson (system_info_request (JStr (generate_token env0))))]\<rparr>) =
     (close_client (register_client server1 conn0) conn0, [welcome_msg conn0],
      Raised UnicodeDecodeError)
   \<and> conn_socket conn0 \<in> set (closed_sockets (close_client (register_client server1 conn0) conn0))"
  by (simp add: handle_client_def conn0_def iteration_def turn_def register_client_def
      close_client_def welcome_msg_def server1_eq server0_fields)

text \<open>
  C8, as the code has it. The registry entry of a connection is created with
  \<^verbatim>\<open>authenticated\<close> false and no statement assigns to the flag afterwards: in
  the state after any number of turns of the worker's loop the flag is false, whatever
  the requests carried, and once \<^verbatim>\<open>_handle_client\<close> has returned the flag is
  not true either (the entry is gone).
\<close>

theorem authenticated_flag_never_set:
  "entry_flag (fst (worker_loop (register_client s c) evs)) c = Some False
   \<and> entry_flag (fst (handle_client s c)) c \<noteq> Some True"
proof -
  have a: "entry_flag (fst (worker_loop (register_client s c) evs)) c = Some False" for evs
    using clients_worker_loop [of "register_client s c" evs] entry_flag_register [of s c]
    by (simp add: entry_flag_def)
  have "entry_flag (fst (handle_client s c)) c \<noteq> Some True"
    using a [of "events c"] entry_flag_close entry_flag_register [of s c]
    by (auto simp: handle_client_def Let_def split: send_result.splits prod.splits loop_end.splits)
  with a show ?thesis by simp
qed

text \<open>
  C8 as it is stated fails: on a connection where \<^verbatim>\<open>admin\<close> has logged in and
  run a command, the command request carried a token that is valid in the Session
  Table of the state reached, both requests were answered, and the flag of the entry
  is false.
\<close>

theorem flag_false_after_valid_token:
  "snd (worker_loop (register_client server0 conn0) login_then_command) =
     ([auth_success (generate_token env0), command_response (ustr ''hi'' @ [10], [], 0)], Blocked)
   \<and> in_session_table (fst (worker_loop (register_client server0 conn0) login_then_command))
         (JStr (generate_token env0))
   \<and> entry_flag (fst (worker_loop (register_client server0 conn0) login_then_command)) conn0 =
       Some False"
proof -
  let ?s1 = "(register_client server0 conn0)\<lparr>auth_tokens := [generate_token env0 \<mapsto> ustr ''admin'']\<rparr>"
  have run: "running (register_client server0 conn0)" "running ?s1"
    by (simp_all add: register_client_def server0_fields)
  have cmd: "iteration ?s1
       (turn (RecvJson (command_request (JStr (generate_token env0)) (JStr (ustr ''echo hi''))))) =
     (?s1\<lparr>popen_calls := popen_calls ?s1 @ [JStr (ustr ''echo hi'')]\<rparr>,
      [command_response (ustr ''hi'' @ [10], [], 0)], Continue)"
    by (simp add: iteration_def turn_def command_request_def handle_client_message_def
        dict_get_Cons validate_token_def dict_contains_def execute_command_def env0_def
        send_frame_def)
  have "worker_loop (register_client server0 conn0) login_then_command =
          (?s1\<lparr>popen_calls := popen_calls ?s1 @ [JStr (ustr ''echo hi'')]\<rparr>,
           [auth_success (generate_token env0), command_response (ustr ''hi'' @ [10], [], 0)],
           Blocked)"
    using run by (simp add: login_then_command_def login_turn cmd)
  then show ?thesis
    by (simp add: in_session_table_def entry_flag_def register_client_def update_conv')
qed

subsection \<open>What an auth request needs\<close>

text \<open>
  An \<^verbatim>\<open>auth\<close> request whose \<^verbatim>\<open>password\<close> field is absent or is not a string
  makes the handler raise, in every state; when it arrives on an open connection,
  after any earlier turns of the loop, the worker leaves the loop by the exception
  and closes the connection.
\<close>

lemma missing_password_closes:
  assumes "dict_get kvs ''type'' = JStr (ustr ''auth'')"
    and "\<forall>p. dict_get kvs ''password'' \<noteq> JStr p"
    and "welcome_sending c = SendOk"
    and "events c = pre @ ev # rest"
    and "worker_loop (register_client s c) pre = (s', out, Blocked)"
    and "received ev = RecvJson (JDict kvs)"
  shows "handle_client s c = (close_client s' c, welcome_msg c # out, Raised AttributeError)
       \<and> conn_socket c \<in> set (closed_sockets (fst (handle_client s c)))
       \<and> entry_flag (fst (handle_client s c)) c = None"
proof -
  have h: "handle_client_message env t (JDict kvs) = (t, Some (Inl AttributeError))" for env t
    using assms(1,2)
    by (simp add: handle_client_message_def authenticate_def hash_password_not_str)
  have "running (fst (worker_loop (register_client s c) pre)) = running (register_client s c)"
    by (rule running_worker_loop)
  moreover have "running (register_client s c)"
    using assms(5) by (cases pre) (auto split: if_splits)
  ultimately have run: "running s'"
    using assms(5) by simp
  have "worker_loop s' (ev # rest) = (s', [], Raised AttributeError)"
    using run h [of "answers ev" s'] assms(6) by (simp add: iteration_def)
  then have "worker_loop (register_client s c) (events c) = (s', out, Raised AttributeError)"
    using worker_loop_append [OF assms(5), of "ev # rest"] assms(4) by simp
  then have hc: "handle_client s c = (close_client s' c, welcome_msg c # out, Raised AttributeError)"
    using assms(3) by (simp add: handle_client_def)
  have "conn_socket c \<in> set (closed_sockets (close_client s' c))"
    by (simp add: close_client_def)
  then show ?thesis
    using hc entry_flag_close by simp
qed

text \<open>
  The user name need not be a string. When the password has a hash, a user name that
  is absent (\<^verbatim>\<open>None\<close>), a boolean or a number is looked up in the Credential
  Store like any other, is not found, and gets the failure response.
\<close>

lemma nonstring_username_is_refused:
  assumes "dict_get kvs ''type'' = JStr (ustr ''auth'')"
    and "hash_password (dict_get kvs ''password'') = Inr h"
    and "hashable (dict_get kvs ''username'')"
    and "\<forall>u. dict_get kvs ''username'' \<noteq> JStr u"
  shows "handle_client_message env t (JDict kvs) = (t, Some (Inr auth_failure))"
  using assms
  by (cases "dict_get kvs ''username''")
    (simp_all add: handle_client_message_def authenticate_def dict_contains_def hashable_def)

text \<open>
  C10, as the code has it. For every \<^verbatim>\<open>auth\<close> request whose \<^verbatim>\<open>password\<close>
  field is absent or is not a string, \<^verbatim>\<open>_handle_client_message\<close> raises
  (\<^verbatim>\<open>AttributeError\<close>, from \<^verbatim>\<open>password.encode()\<close>) in place of returning a
  response, in every state; when such a request arrives on an open connection, after
  any earlier turns of the loop, the worker sends no frame for it, leaves the loop by
  the exception, and its \<^verbatim>\<open>finally\<close> block closes the socket and removes the
  registry entry. That the user name is a string is not needed for a response: with
  a password that has a hash, a request whose user name is absent, a boolean or a
  number gets the \<^verbatim>\<open>auth_response\<close> with \<^verbatim>\<open>success\<close> false.
\<close>

theorem auth_request_preconditions:
  "(dict_get kvs ''type'' = JStr (ustr ''auth'') \<and> (\<forall>p. dict_get kvs ''password'' \<noteq> JStr p) \<longrightarrow>
      handle_client_message env t (JDict kvs) = (t, Some (Inl AttributeError))
      \<and> (welcome_sending c = SendOk \<and> events c = pre @ ev # rest
           \<and> worker_loop (register_client s c) pre = (s', out, Blocked)
           \<and> received ev = RecvJson (JDict kvs) \<longrightarrow>
         handle_client s c = (close_client s' c, welcome_msg c # out, Raised AttributeError)
         \<and> conn_socket c \<in> set (closed_sockets (fst (handle_client s c)))
         \<and> entry_flag (fst (handle_client s c)) c = None))
   \<and> (dict_get kvs ''type'' = JStr (ustr ''auth'')
        \<and> hash_password (dict_get kvs ''password'') = Inr h
        \<and> hashable (dict_get kvs ''username'')
        \<and> (\<forall>u. dict_get kvs ''username'' \<noteq> JStr u) \<longrightarrow>
      handle_client_message env t (JDict kvs) = (t, Some (Inr auth_failure)))"
proof (intro conjI impI)
  assume a: "dict_get kvs ''type'' = JStr (ustr ''auth'') \<and> (\<forall>p. dict_get kvs ''password'' \<noteq> JStr p)"
  then show "handle_client_message env t (JDict kvs) = (t, Some (Inl AttributeError))"
    by (simp add: handle_client_message_def authenticate_def hash_password_not_str)
  assume b: "welcome_sending c = SendOk \<and> events c = pre @ ev # rest
           \<and> worker_loop (register_client s c) pre = (s', out, Blocked)
           \<and> received ev = RecvJson (JDict kvs)"
  from a b have m: "handle_client s c = (close_client s' c, welcome_msg c # out, Raised AttributeError)
       \<and> conn_socket c \<in> set (closed_sockets (fst (handle_client s c)))
       \<and> entry_flag (fst (handle_client s c)) c = None"
    using missing_password_closes [of kvs c pre ev rest s s' out] by blast
  show "handle_client s c = (close_client s' c, welcome_msg c # out, Raised AttributeError)"
    by (rule m [THEN conjunct1])
  show "conn_socket c \<in> set (closed_sockets (fst (handle_client s c)))"
    by (rule m [THEN conjunct2, THEN conjunct1])
  show "entry_flag (fst (handle_client s c)) c = None"
    by (rule m [THEN conjunct2, THEN conjunct2])
next
  assume "dict_get kvs ''type'' = JStr (ustr ''auth'')
        \<and> hash_password (dict_get kvs ''password'') = Inr h
        \<and> hashable (dict_get kvs ''username'')
        \<and> (\<forall>u. dict_get kvs ''username'' \<noteq> JStr u)"
  then show "handle_client_message env t (JDict kvs) = (t, Some (Inr auth_failure))"
    using nonstring_username_is_refused [of kvs h env t] by blast
qed

text \<open>
  On a connection where \<^verbatim>\<open>admin\<close> has logged in, an \<^verbatim>\<open>auth\<close> request without
  a password ends the connection: the frames sent are the welcome and the answer to
  the login. A request whose user name is absent, with the password of \<^verbatim>\<open>admin\<close>,
  is answered by the failure response.
\<close>

theorem auth_request_preconditions_witness:
  "handle_client_message env0 server0
       (JDict [(ustr ''type'', JStr (ustr ''auth'')), (ustr ''username'', JStr (ustr ''admin''))]) =
     (server0, Some (Inl AttributeError))
   \<and> handle_client server0
       (conn0\<lparr>events :=
          [turn (RecvJson (auth_request (JStr (ustr ''admin'')) (JStr (ustr ''admin123'')))),
           turn (RecvJson (JDict [(ustr ''type'', JStr (ustr ''auth'')),
                                  (ustr ''username'', JStr (ustr ''admin''))]))]\<rparr>) =
     (close_client
        ((register_client server0 conn0)\<lparr>auth_tokens := [generate_token env0 \<mapsto> ustr ''admin'']\<rparr>)
        conn0,
      [welcome_msg conn0, auth_success (generate_token env0)], Raised AttributeError)
   \<and> handle_client_message env0 server0
       (JDict [(ustr ''type'', JStr (ustr ''auth'')), (ustr ''password'', JStr (ustr ''admin123''))]) =
     (server0, Some (Inr auth_failure))"
proof -
  let ?kvs = "[(ustr ''type'', JStr (ustr ''auth'')), (ustr ''username'', JStr (ustr ''admin''))]"
  let ?kvs2 = "[(ustr ''type'', JStr (ustr ''auth'')), (ustr ''password'', JStr (ustr ''admin123''))]"
  let ?login = "turn (RecvJson (auth_request (JStr (ustr ''admin'')) (JStr (ustr ''admin123''))))"
  let ?bad = "turn (RecvJson (JDict ?kvs))"
  let ?c = "conn0\<lparr>events := [?login, ?bad]\<rparr>"
  let ?s1 = "(register_client server0 conn0)\<lparr>auth_tokens := [generate_token env0 \<mapsto> ustr ''admin'']\<rparr>"
  have reg: "register_client server0 ?c = register_client server0 conn0"
    by (simp add: register_client_def)
  have pre: "worker_loop (register_client server0 ?c) [?login] =
               (?s1, [auth_success (generate_token env0)], Blocked)"
    by (simp add: reg login_turn) (simp add: register_client_def server0_fields)
  have ty: "dict_get ?kvs ''type'' = JStr (ustr ''auth'')"
    by (simp add: dict_get_Cons)
  have pw: "\<forall>p. dict_get ?kvs ''password'' \<noteq> JStr p"
    by (simp add: dict_get_Cons dict_get_Nil)
  have w: "welcome_sending ?c = SendOk"
    by (simp add: conn0_def)
  have evs: "events ?c = [?login] @ ?bad # []"
    by simp
  have rcv: "received ?bad = RecvJson (JDict ?kvs)"
    by (simp add: turn_def)
  have first: "handle_client_message env0 server0 (JDict ?kvs) = (server0, Some (Inl AttributeError))
      \<and> handle_client server0 ?c =
          (close_client ?s1 ?c, welcome_msg ?c # [auth_success (generate_token env0)],
           Raised AttributeError)"
    using auth_request_preconditions
      [of ?kvs env0 server0 ?c "[?login]" ?bad "[]" server0 ?s1 "[auth_success (generate_token env0)]"]
      ty pw w evs pre rcv
    by blast
  have ty2: "dict_get ?kvs2 ''type'' = JStr (ustr ''auth'')"
    by (simp add: dict_get_Cons)
  have pw2: "hash_password (dict_get ?kvs2 ''password'') =
               Inr (sha256_hexdigest (concat (map utf8_char (ustr ''admin123''))))"
    by (simp add: dict_get_Cons hash_admin123)
  have un2: "hashable (dict_get ?kvs2 ''username'') \<and> (\<forall>u. dict_get ?kvs2 ''username'' \<noteq> JStr u)"
    by (simp add: dict_get_Cons dict_get_Nil hashable_def)
  have second: "handle_client_message env0 server0 (JDict ?kvs2) = (server0, Some (Inr auth_failure))"
    using auth_request_preconditions [of ?kvs2 env0 server0 _ _ _ _ _ _ _
        "sha256_hexdigest (concat (map utf8_char (ustr ''admin123'')))"] ty2 pw2 un2
    by blast
  show ?thesis
    using first second by (simp add: close_client_def welcome_msg_def)
qed

text \<open>
  C10 as it is stated fails in both directions. The request
  \<^verbatim>\<open>{"type": "auth", "username": null, "password": "admin123"}\<close> has a user name
  that is not a string, and the handler returns a response to it. The request
  \<^verbatim>\<open>{"type": "auth", "username": "user", "password": "\udfff"}\<close> has a user
  name and a password that are strings, and the handler raises.
\<close>

theorem nonstring_username_returns:
  "handle_client_message env0 server0 (auth_request JNull (JStr (ustr ''admin123''))) =
     (server0, Some (Inr auth_failure))
   \<and> handle_client_message env0 server0 (auth_request (JStr (ustr ''user'')) (JStr [0xDFFF])) =
     (server0, Some (Inl UnicodeEncodeError))"
  by (simp add: handle_client_message_def auth_request_def dict_get_Cons authenticate_def
      hash_admin123 dict_contains_def hash_password_def [of "JStr [0xDFFF]"] str_encode_def
      is_surrogate_def)

end
